theory Spec2Isabelle
  imports Main "HOL-Library.State_Monad"
begin

section \<open>Data model\<close>

text \<open>
  The enumerations and interfaces of \<^verbatim>\<open>src/teacher-rbac-system.ts\<close> (lines 13-104) and of
  \<^verbatim>\<open>src/src/types/index.ts\<close>. Both files declare the same two enumerations; the
  \<^verbatim>\<open>User\<close> interface of the service module has one more optional field
  (\<^verbatim>\<open>profileImage\<close>), which is absent (\<open>None\<close>) for users of the standalone script.
\<close>

datatype TeacherRole = HOMEROOM_TEACHER | GENERAL_TEACHER

datatype Permission =
    VIEW_STUDENTS | MANAGE_STUDENTS | EDIT_STUDENT_INFO
  | VIEW_GRADES | MANAGE_GRADES | EXPORT_GRADES
  | VIEW_ATTENDANCE | MANAGE_ATTENDANCE
  | VIEW_PARENT_INFO | CONTACT_PARENTS
  | MANAGE_CLASS | VIEW_CLASS_REPORTS
  | CONDUCT_COUNSELING | VIEW_COUNSELING_RECORDS

text \<open>
  \<^verbatim>\<open>interface User\<close>. The field \<^verbatim>\<open>id\<close> is written \<open>uid\<close> (\<open>id\<close> is HOL's
  identity function); \<^verbatim>\<open>createdAt: Date\<close> is the time in milliseconds; an optional
  field is an \<open>option\<close>, \<open>None\<close> being \<^verbatim>\<open>undefined\<close>. The record is
  written once for the two views of its \<^verbatim>\<open>role\<close> property: \<open>User\<close> is the declared
  interface, with a role of the enumeration; \<open>RuntimeUser\<close> is the object as it is at
  run time, where the property holds any string.
\<close>

record 'role UserOf =
  uid :: string
  name :: string
  email :: string
  role :: 'role
  classId :: "string option"
  subjectIds :: "string list option"
  profileImage :: "string option"
  createdAt :: int
  isActive :: bool

type_synonym User = "TeacherRole UserOf"

type_synonym RuntimeUser = "string UserOf"

text \<open>
  \<^verbatim>\<open>interface AuthorizationResult { allowed: boolean; reason?: string }\<close>. The source's
  reasons are eight fixed Korean sentences; each is one constructor here, named by what
  the sentence says:
  \<^item> \<open>InactiveUser\<close>: "the user is deactivated" (checkPermission, first test);
  \<^item> \<open>NoRolePermission\<close>: "the role does not hold this permission";
  \<^item> \<open>OwnSubjectGradesOnly\<close>: "only the grades of one's own subjects can be managed";
  \<^item> \<open>OwnStudentsCounselingOnly\<close>: "only one's own students can be counselled";
  \<^item> \<open>OwnClassStudentsOnly\<close>: "only the students of one's own classes can be viewed";
  \<^item> \<open>HomeroomClassOnly\<close>: "only the homeroom class can be managed";
  \<^item> \<open>UserNotFound\<close>: "the user cannot be found" (TeacherService.checkPermission);
  \<^item> \<open>LoginRequired\<close>: "login is required" (the checkPermission of AuthProvider).
\<close>

datatype Reason =
    InactiveUser | NoRolePermission | OwnSubjectGradesOnly | OwnStudentsCounselingOnly
  | OwnClassStudentsOnly | HomeroomClassOnly | UserNotFound | LoginRequired

record AuthorizationResult =
  allowed :: bool
  reason :: "Reason option"

definition allow :: AuthorizationResult where
  "allow = \<lparr>allowed = True, reason = None\<rparr>"

definition deny :: "Reason \<Rightarrow> AuthorizationResult" where
  "deny why = \<lparr>allowed = False, reason = Some why\<rparr>"

text \<open>
  The parameter \<^verbatim>\<open>resource?: any\<close> is an optional object read only through its
  properties \<^verbatim>\<open>classId\<close>, \<^verbatim>\<open>subjectId\<close> and \<^verbatim>\<open>studentId\<close>: a map from property names
  to strings, \<open>None\<close> when the argument is left out.
\<close>

type_synonym Resource = "string \<rightharpoonup> string"

text \<open>\<^verbatim>\<open>resource?.key\<close>: undefined when the resource or the property is missing.\<close>

definition getProp :: "Resource option \<Rightarrow> string \<Rightarrow> string option" where
  "getProp resource key = (case resource of None \<Rightarrow> None | Some r \<Rightarrow> r key)"

text \<open>
  \<^verbatim>\<open>v && f(v)\<close> in the condition of an \<^verbatim>\<open>if\<close>, for \<^verbatim>\<open>v\<close> a string or undefined:
  JavaScript reads undefined and the empty string as false.
\<close>

definition and_then :: "string option \<Rightarrow> (string \<Rightarrow> bool) \<Rightarrow> bool" where
  "and_then v f = (case v of None \<Rightarrow> False | Some s \<Rightarrow> s \<noteq> [] \<and> f s)"

text \<open>\<^verbatim>\<open>!v\<close> for \<^verbatim>\<open>v\<close> a string or undefined.\<close>

definition falsy :: "string option \<Rightarrow> bool" where
  "falsy v = (case v of None \<Rightarrow> True | Some s \<Rightarrow> s = [])"

text \<open>\<^verbatim>\<open>xs?.includes(x)\<close> in a condition: undefined (false) when the array is missing.\<close>

definition includesOpt :: "string list option \<Rightarrow> string \<Rightarrow> bool" where
  "includesOpt xs x = (case xs of None \<Rightarrow> False | Some ys \<Rightarrow> x \<in> set ys)"

section \<open>The access-control objects\<close>

text \<open>
  An object of class \<^verbatim>\<open>RoleBasedAccessControl\<close> (standalone script) or \<^verbatim>\<open>RBACService\<close>
  (service module): its field \<^verbatim>\<open>rolePermissions\<close> and the two private methods that the
  resource rules call through \<^verbatim>\<open>this\<close>. The table is a dictionary from roles to
  permission arrays.
\<close>

record AccessControl =
  rolePermissions :: "TeacherRole \<rightharpoonup> Permission list"
  isTeachingStudent :: "User \<Rightarrow> string \<Rightarrow> bool"
  isTeachingClass :: "User \<Rightarrow> string \<Rightarrow> bool"

text \<open>The table both classes install (lines 128-154 and 8-34).\<close>

definition initializeRolePermissions :: "TeacherRole \<rightharpoonup> Permission list" where
  "initializeRolePermissions =
     [HOMEROOM_TEACHER \<mapsto>
        [VIEW_STUDENTS, MANAGE_STUDENTS, EDIT_STUDENT_INFO, VIEW_GRADES, MANAGE_GRADES,
         EXPORT_GRADES, VIEW_ATTENDANCE, MANAGE_ATTENDANCE, VIEW_PARENT_INFO,
         CONTACT_PARENTS, MANAGE_CLASS, VIEW_CLASS_REPORTS, CONDUCT_COUNSELING,
         VIEW_COUNSELING_RECORDS],
      GENERAL_TEACHER \<mapsto>
        [VIEW_STUDENTS, VIEW_GRADES, MANAGE_GRADES, VIEW_ATTENDANCE, CONDUCT_COUNSELING]]"

text \<open>
  The objects as the constructors leave them. Both classes ship the two lookups as
  placeholders that return \<^verbatim>\<open>true\<close> for every teacher and every id.
\<close>

definition new_RoleBasedAccessControl :: AccessControl where
  "new_RoleBasedAccessControl =
     \<lparr>rolePermissions = initializeRolePermissions,
      isTeachingStudent = (\<lambda>teacher studentId. True),
      isTeachingClass = (\<lambda>teacher classId. True)\<rparr>"

definition new_RBACService :: AccessControl where
  "new_RBACService =
     \<lparr>rolePermissions = initializeRolePermissions,
      isTeachingStudent = (\<lambda>teacher studentId. True),
      isTeachingClass = (\<lambda>teacher classId. True)\<rparr>"

text \<open>
  \<^verbatim>\<open>getRolePermissions(role) { return this.rolePermissions[role] || []; }\<close> for a role
  of the enumeration. What the lookup gives for any other string is
  \<open>getRolePermissions_runtime\<close> below.
\<close>

definition getRolePermissions :: "AccessControl \<Rightarrow> TeacherRole \<Rightarrow> Permission list" where
  "getRolePermissions this r =
     (case rolePermissions this r of None \<Rightarrow> [] | Some ps \<Rightarrow> ps)"

subsection \<open>RoleBasedAccessControl (src/teacher-rbac-system.ts, lines 160-223)\<close>

text \<open>
  The \<^verbatim>\<open>switch\<close> of the general teacher. It has no default: \<open>None\<close> is a permission
  with no case, for which control leaves the \<^verbatim>\<open>switch\<close> and goes on below it.
\<close>

definition RoleBasedAccessControl_generalTeacher ::
  "AccessControl \<Rightarrow> User \<Rightarrow> Permission \<Rightarrow> Resource option \<Rightarrow> AuthorizationResult option" where
  "RoleBasedAccessControl_generalTeacher this user permission resource =
     (let viewRule =
            (if and_then (getProp resource ''classId'') (isTeachingClass this user)
             then allow else deny OwnClassStudentsOnly)
      in case permission of
           MANAGE_GRADES \<Rightarrow>
             Some (if and_then (getProp resource ''subjectId'') (includesOpt (subjectIds user))
                   then allow else deny OwnSubjectGradesOnly)
         | CONDUCT_COUNSELING \<Rightarrow>
             Some (if and_then (getProp resource ''studentId'') (isTeachingStudent this user)
                   then allow else deny OwnStudentsCounselingOnly)
         | VIEW_STUDENTS \<Rightarrow> Some viewRule
         | VIEW_GRADES \<Rightarrow> Some viewRule
         | VIEW_ATTENDANCE \<Rightarrow> Some viewRule
         | _ \<Rightarrow> None)"

text \<open>The \<^verbatim>\<open>switch\<close> of the homeroom teacher.\<close>

definition RoleBasedAccessControl_homeroomTeacher ::
  "User \<Rightarrow> Permission \<Rightarrow> Resource option \<Rightarrow> AuthorizationResult option" where
  "RoleBasedAccessControl_homeroomTeacher user permission resource =
     (let ownClassRule =
            (if and_then (getProp resource ''classId'') (\<lambda>c. classId user = Some c)
             then allow else deny HomeroomClassOnly)
      in case permission of
           MANAGE_CLASS \<Rightarrow> Some ownClassRule
         | MANAGE_STUDENTS \<Rightarrow> Some ownClassRule
         | EDIT_STUDENT_INFO \<Rightarrow> Some ownClassRule
         | _ \<Rightarrow> None)"

definition RoleBasedAccessControl_checkResourceAccess ::
  "AccessControl \<Rightarrow> User \<Rightarrow> Permission \<Rightarrow> Resource option \<Rightarrow> AuthorizationResult" where
  "RoleBasedAccessControl_checkResourceAccess this user permission resource =
     (case (if role user = GENERAL_TEACHER
            then RoleBasedAccessControl_generalTeacher this user permission resource
            else None) of
        Some result \<Rightarrow> result
      | None \<Rightarrow>
          (case (if role user = HOMEROOM_TEACHER
                 then RoleBasedAccessControl_homeroomTeacher user permission resource
                 else None) of
             Some result \<Rightarrow> result
           | None \<Rightarrow> allow))"

definition RoleBasedAccessControl_checkPermission ::
  "AccessControl \<Rightarrow> User \<Rightarrow> Permission \<Rightarrow> Resource option \<Rightarrow> AuthorizationResult" where
  "RoleBasedAccessControl_checkPermission this user permission resource =
     (if \<not> isActive user then deny InactiveUser
      else if permission \<notin> set (getRolePermissions this (role user))
           then deny NoRolePermission
      else RoleBasedAccessControl_checkResourceAccess this user permission resource)"

subsection \<open>RBACService (src/src/services/RBACService.ts, lines 36-103)\<close>

text \<open>
  The same two \<^verbatim>\<open>switch\<close> statements, with two branches changed: the view rule returns
  \<^verbatim>\<open>{ allowed: true }\<close> on both paths (line 77), and the homeroom rule allows when the
  resource has no class id (lines 91-93).
\<close>

definition RBACService_generalTeacher ::
  "AccessControl \<Rightarrow> User \<Rightarrow> Permission \<Rightarrow> Resource option \<Rightarrow> AuthorizationResult option" where
  "RBACService_generalTeacher this user permission resource =
     (let viewRule =
            (if and_then (getProp resource ''classId'') (isTeachingClass this user)
             then allow else allow)
      in case permission of
           MANAGE_GRADES \<Rightarrow>
             Some (if and_then (getProp resource ''subjectId'') (includesOpt (subjectIds user))
                   then allow else deny OwnSubjectGradesOnly)
         | CONDUCT_COUNSELING \<Rightarrow>
             Some (if and_then (getProp resource ''studentId'') (isTeachingStudent this user)
                   then allow else deny OwnStudentsCounselingOnly)
         | VIEW_STUDENTS \<Rightarrow> Some viewRule
         | VIEW_GRADES \<Rightarrow> Some viewRule
         | VIEW_ATTENDANCE \<Rightarrow> Some viewRule
         | _ \<Rightarrow> None)"

definition RBACService_homeroomTeacher ::
  "User \<Rightarrow> Permission \<Rightarrow> Resource option \<Rightarrow> AuthorizationResult option" where
  "RBACService_homeroomTeacher user permission resource =
     (let ownClassRule =
            (if and_then (getProp resource ''classId'') (\<lambda>c. classId user = Some c)
             then allow
             else if falsy (getProp resource ''classId'') then allow
             else deny HomeroomClassOnly)
      in case permission of
           MANAGE_CLASS \<Rightarrow> Some ownClassRule
         | MANAGE_STUDENTS \<Rightarrow> Some ownClassRule
         | EDIT_STUDENT_INFO \<Rightarrow> Some ownClassRule
         | _ \<Rightarrow> None)"

definition RBACService_checkResourceAccess ::
  "AccessControl \<Rightarrow> User \<Rightarrow> Permission \<Rightarrow> Resource option \<Rightarrow> AuthorizationResult" where
  "RBACService_checkResourceAccess this user permission resource =
     (case (if role user = GENERAL_TEACHER
            then RBACService_generalTeacher this user permission resource
            else None) of
        Some result \<Rightarrow> result
      | None \<Rightarrow>
          (case (if role user = HOMEROOM_TEACHER
                 then RBACService_homeroomTeacher user permission resource
                 else None) of
             Some result \<Rightarrow> result
           | None \<Rightarrow> allow))"

definition RBACService_checkPermission ::
  "AccessControl \<Rightarrow> User \<Rightarrow> Permission \<Rightarrow> Resource option \<Rightarrow> AuthorizationResult" where
  "RBACService_checkPermission this user permission resource =
     (if \<not> isActive user then deny InactiveUser
      else if permission \<notin> set (getRolePermissions this (role user))
           then deny NoRolePermission
      else RBACService_checkResourceAccess this user permission resource)"

section \<open>Sample data\<close>

text \<open>
  The users the standalone \<^verbatim>\<open>TeacherService\<close> is seeded with (lines 280-299); the names
  are romanised, and the creation time is a parameter (\<^verbatim>\<open>new Date()\<close>).
\<close>

definition teacher1 :: "int \<Rightarrow> User" where
  "teacher1 now =
     \<lparr>uid = ''teacher1'', name = ''Kim Damim'', email = ''kim@school.edu'',
      role = HOMEROOM_TEACHER, classId = Some ''class-3-1'', subjectIds = None,
      profileImage = None, createdAt = now, isActive = True\<rparr>"

definition teacher2 :: "int \<Rightarrow> User" where
  "teacher2 now =
     \<lparr>uid = ''teacher2'', name = ''Lee Ilban'', email = ''lee@school.edu'',
      role = GENERAL_TEACHER, classId = None, subjectIds = Some [''math'', ''science''],
      profileImage = None, createdAt = now, isActive = True\<rparr>"

section \<open>Values at run time\<close>

text \<open>
  The TypeScript types hold for callers that the compiler checked. At run time a role
  and a permission are strings (the enumerations are string enumerations), a user may be
  \<^verbatim>\<open>null\<close>, and a user record read back with \<^verbatim>\<open>JSON.parse\<close> (AuthProvider) or stored by
  \<^verbatim>\<open>createUser\<close> and \<^verbatim>\<open>updateUserRole\<close> carries whatever string its \<^verbatim>\<open>role\<close> property
  holds. A JavaScript exception is a value \<open>Inl\<close> of the result. The only exception the
  modelled code can raise is a \<^verbatim>\<open>TypeError\<close>: reading a property of \<^verbatim>\<open>null\<close> or
  \<^verbatim>\<open>undefined\<close>, or calling a value that is not a function.
\<close>

datatype JsError = TypeError

text \<open>The string values the two enumerations declare.\<close>

fun roleValue :: "TeacherRole \<Rightarrow> string" where
  "roleValue HOMEROOM_TEACHER = ''homeroom_teacher''"
| "roleValue GENERAL_TEACHER = ''general_teacher''"


text \<open>
  The enumeration member a run-time string is equal to (\<^verbatim>\<open>===\<close>), if there is one:
  \<open>None\<close> is a value outside the enumeration.
\<close>

definition decodeRole :: "string \<Rightarrow> TeacherRole option" where
  "decodeRole v = find (\<lambda>r. roleValue r = v) [HOMEROOM_TEACHER, GENERAL_TEACHER]"


text \<open>The same user record under the two views of its \<^verbatim>\<open>role\<close> property.\<close>

definition asUser :: "TeacherRole \<Rightarrow> RuntimeUser \<Rightarrow> User" where
  "asUser r u =
     \<lparr>uid = uid u, name = name u, email = email u, role = r, classId = classId u,
      subjectIds = subjectIds u, profileImage = profileImage u, createdAt = createdAt u,
      isActive = isActive u\<rparr>"

definition asRuntime :: "User \<Rightarrow> RuntimeUser" where
  "asRuntime u =
     \<lparr>uid = uid u, name = name u, email = email u, role = roleValue (role u),
      classId = classId u, subjectIds = subjectIds u, profileImage = profileImage u,
      createdAt = createdAt u, isActive = isActive u\<rparr>"

text \<open>
  The role-permission table and the screen table are plain objects, so a lookup
  \<^verbatim>\<open>table[key]\<close> also finds what the object inherits from \<^verbatim>\<open>Object.prototype\<close>.
  These are the inherited property names (the properties of the Object prototype object
  in ECMAScript, its legacy accessors included); each holds a function, or for
  \<^verbatim>\<open>__proto__\<close> the prototype object itself.
\<close>

definition Object_prototype :: "string list" where
  "Object_prototype =
     [''constructor'', ''hasOwnProperty'', ''isPrototypeOf'', ''propertyIsEnumerable'',
      ''toLocaleString'', ''toString'', ''valueOf'', ''__proto__'', ''__defineGetter__'',
      ''__defineSetter__'', ''__lookupGetter__'', ''__lookupSetter__'']"








section \<open>TeacherService (src/teacher-rbac-system.ts, lines 267-347)\<close>





section \<open>AuthProvider (src/src/services/RBACService.ts, lines 289-295)\<close>


section \<open>Screens (src/src/services/RBACService.ts, lines 119-138)\<close>

text \<open>The object literal \<^verbatim>\<open>screenPermissions\<close>: its own properties, in source order.\<close>

definition screenPermissions :: "(string \<times> Permission list) list" where
  "screenPermissions =
     [(''Students'', [VIEW_STUDENTS]),
      (''StudentDetail'', [VIEW_STUDENTS]),
      (''AddStudent'', [MANAGE_STUDENTS]),
      (''EditStudent'', [EDIT_STUDENT_INFO]),
      (''Grades'', [VIEW_GRADES]),
      (''AddGrade'', [MANAGE_GRADES]),
      (''EditGrade'', [MANAGE_GRADES]),
      (''Attendance'', [VIEW_ATTENDANCE]),
      (''TakeAttendance'', [MANAGE_ATTENDANCE])]"

text \<open>
  \<^verbatim>\<open>canAccessScreen(user, screenName)\<close>. An own property gives the permission array,
  and \<^verbatim>\<open>some\<close> asks \<^verbatim>\<open>checkPermission\<close> for each permission with no resource. An
  inherited property is truthy, so \<^verbatim>\<open>if (!requiredPermissions) return true\<close> does not
  return, and calling its missing \<^verbatim>\<open>some\<close> throws. Any other name gives
  \<^verbatim>\<open>undefined\<close>, and the method returns true.
\<close>

definition canAccessScreen :: "AccessControl \<Rightarrow> User \<Rightarrow> string \<Rightarrow> JsError + bool" where
  "canAccessScreen this user screenName =
     (case map_of screenPermissions screenName of
        Some requiredPermissions \<Rightarrow>
          Inr (list_ex
                 (\<lambda>permission. allowed (RBACService_checkPermission this user permission None))
                 requiredPermissions)
      | None \<Rightarrow>
          if screenName \<in> set Object_prototype then Inl TypeError else Inr True)"

section \<open>The methods as programs over the objects they reach\<close>

text \<open>
  A call of \<^verbatim>\<open>checkPermission\<close> reaches two objects by reference: the receiver
  \<^verbatim>\<open>this\<close>, with its table, and the \<^verbatim>\<open>user\<close> record. Here the two method bodies are
  written statement by statement as programs in the state monad over that pair. A
  property read is a read of the state; an assignment to a property would be an
  \<open>update\<close> of the state. \<^verbatim>\<open>Array.prototype.includes\<close> only reads its array.
\<close>

type_synonym Reached = "AccessControl \<times> User"

text \<open>\<^verbatim>\<open>this.rolePermissions[role]\<close>\<close>

definition this_rolePermissions :: "TeacherRole \<Rightarrow> (Reached, Permission list option) state" where
  "this_rolePermissions r =
     do { s \<leftarrow> State_Monad.get; State_Monad.return (rolePermissions (fst s) r) }"

text \<open>\<^verbatim>\<open>user.field\<close>\<close>

definition user_property :: "(User \<Rightarrow> 'a) \<Rightarrow> (Reached, 'a) state" where
  "user_property field = do { s \<leftarrow> State_Monad.get; State_Monad.return (field (snd s)) }"

text \<open>\<^verbatim>\<open>this.isTeachingStudent(user, studentId)\<close> and \<^verbatim>\<open>this.isTeachingClass(user, classId)\<close>\<close>

definition this_isTeachingStudent :: "string \<Rightarrow> (Reached, bool) state" where
  "this_isTeachingStudent studentId =
     do { s \<leftarrow> State_Monad.get;
          State_Monad.return (isTeachingStudent (fst s) (snd s) studentId) }"

definition this_isTeachingClass :: "string \<Rightarrow> (Reached, bool) state" where
  "this_isTeachingClass c =
     do { s \<leftarrow> State_Monad.get; State_Monad.return (isTeachingClass (fst s) (snd s) c) }"

text \<open>
  \<^verbatim>\<open>v && f(v)\<close> where \<^verbatim>\<open>f\<close> is a call: the call is made only when \<^verbatim>\<open>v\<close> is truthy.
\<close>

definition and_then_call :: "string option \<Rightarrow> (string \<Rightarrow> ('s, bool) state) \<Rightarrow> ('s, bool) state" where
  "and_then_call v f =
     (case v of
        None \<Rightarrow> State_Monad.return False
      | Some s \<Rightarrow> if s = [] then State_Monad.return False else f s)"

definition getRolePermissions_program :: "TeacherRole \<Rightarrow> (Reached, Permission list) state" where
  "getRolePermissions_program r =
     do { entry \<leftarrow> this_rolePermissions r;
          State_Monad.return (case entry of None \<Rightarrow> [] | Some ps \<Rightarrow> ps) }"

subsection \<open>RoleBasedAccessControl\<close>

definition RoleBasedAccessControl_generalTeacher_program ::
  "Permission \<Rightarrow> Resource option \<Rightarrow> (Reached, AuthorizationResult option) state" where
  "RoleBasedAccessControl_generalTeacher_program permission resource =
     (let viewRule =
            do { teaches \<leftarrow> and_then_call (getProp resource ''classId'') this_isTeachingClass;
                 State_Monad.return
                   (Some (if teaches then allow else deny OwnClassStudentsOnly)) }
      in case permission of
           MANAGE_GRADES \<Rightarrow>
             do { own \<leftarrow> and_then_call (getProp resource ''subjectId'')
                          (\<lambda>subjectId.
                             do { ids \<leftarrow> user_property subjectIds;
                                  State_Monad.return (includesOpt ids subjectId) });
                  State_Monad.return (Some (if own then allow else deny OwnSubjectGradesOnly)) }
         | CONDUCT_COUNSELING \<Rightarrow>
             do { teaches \<leftarrow> and_then_call (getProp resource ''studentId'')
                              this_isTeachingStudent;
                  State_Monad.return
                    (Some (if teaches then allow else deny OwnStudentsCounselingOnly)) }
         | VIEW_STUDENTS \<Rightarrow> viewRule
         | VIEW_GRADES \<Rightarrow> viewRule
         | VIEW_ATTENDANCE \<Rightarrow> viewRule
         | _ \<Rightarrow> State_Monad.return None)"

definition RoleBasedAccessControl_homeroomTeacher_program ::
  "Permission \<Rightarrow> Resource option \<Rightarrow> (Reached, AuthorizationResult option) state" where
  "RoleBasedAccessControl_homeroomTeacher_program permission resource =
     (let ownClassRule =
            do { own \<leftarrow> and_then_call (getProp resource ''classId'')
                          (\<lambda>c. do { mine \<leftarrow> user_property classId;
                                    State_Monad.return (mine = Some c) });
                 State_Monad.return (Some (if own then allow else deny HomeroomClassOnly)) }
      in case permission of
           MANAGE_CLASS \<Rightarrow> ownClassRule
         | MANAGE_STUDENTS \<Rightarrow> ownClassRule
         | EDIT_STUDENT_INFO \<Rightarrow> ownClassRule
         | _ \<Rightarrow> State_Monad.return None)"

definition RoleBasedAccessControl_checkResourceAccess_program ::
  "Permission \<Rightarrow> Resource option \<Rightarrow> (Reached, AuthorizationResult) state" where
  "RoleBasedAccessControl_checkResourceAccess_program permission resource =
     do { r \<leftarrow> user_property role;
          general \<leftarrow> (if r = GENERAL_TEACHER
                      then RoleBasedAccessControl_generalTeacher_program permission resource
                      else State_Monad.return None);
          case general of
            Some result \<Rightarrow> State_Monad.return result
          | None \<Rightarrow>
              do { r' \<leftarrow> user_property role;
                   homeroom \<leftarrow> (if r' = HOMEROOM_TEACHER
                                then RoleBasedAccessControl_homeroomTeacher_program
                                       permission resource
                                else State_Monad.return None);
                   case homeroom of
                     Some result \<Rightarrow> State_Monad.return result
                   | None \<Rightarrow> State_Monad.return allow } }"

definition RoleBasedAccessControl_checkPermission_program ::
  "Permission \<Rightarrow> Resource option \<Rightarrow> (Reached, AuthorizationResult) state" where
  "RoleBasedAccessControl_checkPermission_program permission resource =
     do { active \<leftarrow> user_property isActive;
          if \<not> active then State_Monad.return (deny InactiveUser)
          else
            do { r \<leftarrow> user_property role;
                 rolePermissions \<leftarrow> getRolePermissions_program r;
                 if permission \<notin> set rolePermissions
                 then State_Monad.return (deny NoRolePermission)
                 else RoleBasedAccessControl_checkResourceAccess_program permission
                        resource } }"

subsection \<open>RBACService\<close>

definition RBACService_generalTeacher_program ::
  "Permission \<Rightarrow> Resource option \<Rightarrow> (Reached, AuthorizationResult option) state" where
  "RBACService_generalTeacher_program permission resource =
     (let viewRule =
            do { teaches \<leftarrow> and_then_call (getProp resource ''classId'') this_isTeachingClass;
                 State_Monad.return (Some (if teaches then allow else allow)) }
      in case permission of
           MANAGE_GRADES \<Rightarrow>
             do { own \<leftarrow> and_then_call (getProp resource ''subjectId'')
                          (\<lambda>subjectId.
                             do { ids \<leftarrow> user_property subjectIds;
                                  State_Monad.return (includesOpt ids subjectId) });
                  State_Monad.return (Some (if own then allow else deny OwnSubjectGradesOnly)) }
         | CONDUCT_COUNSELING \<Rightarrow>
             do { teaches \<leftarrow> and_then_call (getProp resource ''studentId'')
                              this_isTeachingStudent;
                  State_Monad.return
                    (Some (if teaches then allow else deny OwnStudentsCounselingOnly)) }
         | VIEW_STUDENTS \<Rightarrow> viewRule
         | VIEW_GRADES \<Rightarrow> viewRule
         | VIEW_ATTENDANCE \<Rightarrow> viewRule
         | _ \<Rightarrow> State_Monad.return None)"

definition RBACService_homeroomTeacher_program ::
  "Permission \<Rightarrow> Resource option \<Rightarrow> (Reached, AuthorizationResult option) state" where
  "RBACService_homeroomTeacher_program permission resource =
     (let ownClassRule =
            do { own \<leftarrow> and_then_call (getProp resource ''classId'')
                          (\<lambda>c. do { mine \<leftarrow> user_property classId;
                                    State_Monad.return (mine = Some c) });
                 if own then State_Monad.return (Some allow)
                 else if falsy (getProp resource ''classId'')
                      then State_Monad.return (Some allow)
                 else State_Monad.return (Some (deny HomeroomClassOnly)) }
      in case permission of
           MANAGE_CLASS \<Rightarrow> ownClassRule
         | MANAGE_STUDENTS \<Rightarrow> ownClassRule
         | EDIT_STUDENT_INFO \<Rightarrow> ownClassRule
         | _ \<Rightarrow> State_Monad.return None)"

definition RBACService_checkResourceAccess_program ::
  "Permission \<Rightarrow> Resource option \<Rightarrow> (Reached, AuthorizationResult) state" where
  "RBACService_checkResourceAccess_program permission resource =
     do { r \<leftarrow> user_property role;
          general \<leftarrow> (if r = GENERAL_TEACHER
                      then RBACService_generalTeacher_program permission resource
                      else State_Monad.return None);
          case general of
            Some result \<Rightarrow> State_Monad.return result
          | None \<Rightarrow>
              do { r' \<leftarrow> user_property role;
                   homeroom \<leftarrow> (if r' = HOMEROOM_TEACHER
                                then RBACService_homeroomTeacher_program permission resource
                                else State_Monad.return None);
                   case homeroom of
                     Some result \<Rightarrow> State_Monad.return result
                   | None \<Rightarrow> State_Monad.return allow } }"

definition RBACService_checkPermission_program ::
  "Permission \<Rightarrow> Resource option \<Rightarrow> (Reached, AuthorizationResult) state" where
  "RBACService_checkPermission_program permission resource =
     do { active \<leftarrow> user_property isActive;
          if \<not> active then State_Monad.return (deny InactiveUser)
          else
            do { r \<leftarrow> user_property role;
                 rolePermissions \<leftarrow> getRolePermissions_program r;
                 if permission \<notin> set rolePermissions
                 then State_Monad.return (deny NoRolePermission)
                 else RBACService_checkResourceAccess_program permission resource } }"

section \<open>Activation gate and baseline role check\<close>

lemma getRolePermissions_general:
  "rolePermissions this = initializeRolePermissions \<Longrightarrow>
   getRolePermissions this GENERAL_TEACHER =
     [VIEW_STUDENTS, VIEW_GRADES, MANAGE_GRADES, VIEW_ATTENDANCE, CONDUCT_COUNSELING]"
  by (simp add: getRolePermissions_def initializeRolePermissions_def)

lemma getRolePermissions_homeroom:
  "rolePermissions this = initializeRolePermissions \<Longrightarrow>
   getRolePermissions this HOMEROOM_TEACHER =
     [VIEW_STUDENTS, MANAGE_STUDENTS, EDIT_STUDENT_INFO, VIEW_GRADES, MANAGE_GRADES,
      EXPORT_GRADES, VIEW_ATTENDANCE, MANAGE_ATTENDANCE, VIEW_PARENT_INFO,
      CONTACT_PARENTS, MANAGE_CLASS, VIEW_CLASS_REPORTS, CONDUCT_COUNSELING,
      VIEW_COUNSELING_RECORDS]"
  by (simp add: getRolePermissions_def initializeRolePermissions_def)

lemma shipped_table [simp]:
  "rolePermissions new_RoleBasedAccessControl = initializeRolePermissions"
  "rolePermissions new_RBACService = initializeRolePermissions"
  by (simp_all add: new_RoleBasedAccessControl_def new_RBACService_def)

lemma shipped_lookups [simp]:
  "isTeachingStudent new_RoleBasedAccessControl teacher studentId"
  "isTeachingClass new_RoleBasedAccessControl teacher c"
  "isTeachingStudent new_RBACService teacher studentId"
  "isTeachingClass new_RBACService teacher c"
  by (simp_all add: new_RoleBasedAccessControl_def new_RBACService_def)

lemma teacher1_fields [simp]:
  "isActive (teacher1 now)" "role (teacher1 now) = HOMEROOM_TEACHER"
  "classId (teacher1 now) = Some ''class-3-1''" "subjectIds (teacher1 now) = None"
  by (simp_all add: teacher1_def)

lemma teacher2_fields [simp]:
  "isActive (teacher2 now)" "role (teacher2 now) = GENERAL_TEACHER"
  "classId (teacher2 now) = None" "subjectIds (teacher2 now) = Some [''math'', ''science'']"
  by (simp_all add: teacher2_def)

text \<open>
  Claim C1. A user whose \<^verbatim>\<open>isActive\<close> flag is false is denied with the
  deactivated-user reason by both implementations, for every permission, every
  resource (also none), every role, and whatever the table and the lookups of the
  object are: the flag is the first thing tested.
\<close>

theorem C1_inactive_denied:
  assumes "\<not> isActive user"
  shows "RoleBasedAccessControl_checkPermission this user permission resource
           = \<lparr>allowed = False, reason = Some InactiveUser\<rparr>
       \<and> RBACService_checkPermission this user permission resource
           = \<lparr>allowed = False, reason = Some InactiveUser\<rparr>"
  using assms
  by (simp add: RoleBasedAccessControl_checkPermission_def
      RBACService_checkPermission_def deny_def)

theorem C1_inactive_denied_witness:
  "\<not> isActive ((teacher1 0)\<lparr>isActive := False\<rparr>)
   \<and> RoleBasedAccessControl_checkPermission new_RoleBasedAccessControl
        ((teacher1 0)\<lparr>isActive := False\<rparr>) MANAGE_CLASS None
       = \<lparr>allowed = False, reason = Some InactiveUser\<rparr>
   \<and> RBACService_checkPermission new_RBACService
        ((teacher1 0)\<lparr>isActive := False\<rparr>) VIEW_STUDENTS
        (Some [''classId'' \<mapsto> ''class-3-1''])
       = \<lparr>allowed = False, reason = Some InactiveUser\<rparr>"
proof -
  have inactive: "\<not> isActive ((teacher1 0)\<lparr>isActive := False\<rparr>)"
    by simp
  from C1_inactive_denied [OF inactive, of new_RoleBasedAccessControl MANAGE_CLASS None]
       C1_inactive_denied [OF inactive, of new_RBACService VIEW_STUDENTS
         "Some [''classId'' \<mapsto> ''class-3-1'']"]
  show ?thesis
    using inactive by blast
qed

text \<open>
  Claim C2. For an active user, a permission that is not in the table entry of the
  user's role is denied with the no-permission-for-the-role reason by both
  implementations, whatever the resource (also none), the table and the lookups. On the
  shipped objects a general teacher is so denied each of the nine permissions that the
  general teacher's entry leaves out.
\<close>

theorem C2_not_granted_denied:
  assumes "isActive user"
  shows "(permission \<notin> set (getRolePermissions this (role user)) \<longrightarrow>
            RoleBasedAccessControl_checkPermission this user permission resource
              = \<lparr>allowed = False, reason = Some NoRolePermission\<rparr>
          \<and> RBACService_checkPermission this user permission resource
              = \<lparr>allowed = False, reason = Some NoRolePermission\<rparr>)
       \<and> (role user = GENERAL_TEACHER
            \<and> permission \<in> {MANAGE_CLASS, MANAGE_STUDENTS, EDIT_STUDENT_INFO, EXPORT_GRADES,
                  MANAGE_ATTENDANCE, VIEW_PARENT_INFO, CONTACT_PARENTS, VIEW_CLASS_REPORTS,
                  VIEW_COUNSELING_RECORDS} \<longrightarrow>
            RoleBasedAccessControl_checkPermission new_RoleBasedAccessControl user
                permission resource
              = \<lparr>allowed = False, reason = Some NoRolePermission\<rparr>
          \<and> RBACService_checkPermission new_RBACService user permission resource
              = \<lparr>allowed = False, reason = Some NoRolePermission\<rparr>)"
proof (intro conjI impI)
  assume "permission \<notin> set (getRolePermissions this (role user))"
  with assms
  show "RoleBasedAccessControl_checkPermission this user permission resource
          = \<lparr>allowed = False, reason = Some NoRolePermission\<rparr>"
    and "RBACService_checkPermission this user permission resource
          = \<lparr>allowed = False, reason = Some NoRolePermission\<rparr>"
    by (simp_all add: RoleBasedAccessControl_checkPermission_def
        RBACService_checkPermission_def deny_def)
next
  assume general: "role user = GENERAL_TEACHER
    \<and> permission \<in> {MANAGE_CLASS, MANAGE_STUDENTS, EDIT_STUDENT_INFO, EXPORT_GRADES,
          MANAGE_ATTENDANCE, VIEW_PARENT_INFO, CONTACT_PARENTS, VIEW_CLASS_REPORTS,
          VIEW_COUNSELING_RECORDS}"
  then have "permission \<notin> set (getRolePermissions new_RoleBasedAccessControl (role user))"
    and "permission \<notin> set (getRolePermissions new_RBACService (role user))"
    by (auto simp: getRolePermissions_general)
  with assms
  show "RoleBasedAccessControl_checkPermission new_RoleBasedAccessControl user
            permission resource
          = \<lparr>allowed = False, reason = Some NoRolePermission\<rparr>"
    and "RBACService_checkPermission new_RBACService user permission resource
          = \<lparr>allowed = False, reason = Some NoRolePermission\<rparr>"
    by (simp_all add: RoleBasedAccessControl_checkPermission_def
        RBACService_checkPermission_def deny_def)
qed

theorem C2_not_granted_denied_witness:
  "isActive (teacher2 0)
   \<and> EXPORT_GRADES \<notin> set (getRolePermissions new_RoleBasedAccessControl (role (teacher2 0)))
   \<and> RoleBasedAccessControl_checkPermission new_RoleBasedAccessControl (teacher2 0)
        EXPORT_GRADES None
       = \<lparr>allowed = False, reason = Some NoRolePermission\<rparr>
   \<and> RBACService_checkPermission new_RBACService (teacher2 0) MANAGE_CLASS
        (Some [''classId'' \<mapsto> ''class-3-1''])
       = \<lparr>allowed = False, reason = Some NoRolePermission\<rparr>"
proof -
  have active: "isActive (teacher2 0)"
    by simp
  have absent: "EXPORT_GRADES
      \<notin> set (getRolePermissions new_RoleBasedAccessControl (role (teacher2 0)))"
    by (simp add: getRolePermissions_general)
  have general: "role (teacher2 0) = GENERAL_TEACHER
      \<and> MANAGE_CLASS \<in> {MANAGE_CLASS, MANAGE_STUDENTS, EDIT_STUDENT_INFO, EXPORT_GRADES,
            MANAGE_ATTENDANCE, VIEW_PARENT_INFO, CONTACT_PARENTS, VIEW_CLASS_REPORTS,
            VIEW_COUNSELING_RECORDS}"
    by simp
  from C2_not_granted_denied [OF active, of EXPORT_GRADES new_RoleBasedAccessControl None]
       absent
  have first: "RoleBasedAccessControl_checkPermission new_RoleBasedAccessControl
        (teacher2 0) EXPORT_GRADES None
      = \<lparr>allowed = False, reason = Some NoRolePermission\<rparr>"
    by blast
  from C2_not_granted_denied [OF active, of MANAGE_CLASS _
         "Some [''classId'' \<mapsto> ''class-3-1'']"] general
  have second: "RBACService_checkPermission new_RBACService (teacher2 0) MANAGE_CLASS
        (Some [''classId'' \<mapsto> ''class-3-1''])
      = \<lparr>allowed = False, reason = Some NoRolePermission\<rparr>"
    by blast
  from active absent first second show ?thesis
    by blast
qed

section \<open>Resource rules\<close>

lemma and_then_iff: "and_then v f \<longleftrightarrow> (\<exists>s. v = Some s \<and> s \<noteq> [] \<and> f s)"
  by (cases v) (simp_all add: and_then_def)

lemma falsy_iff: "falsy v \<longleftrightarrow> v = None \<or> v = Some []"
  by (cases v) (simp_all add: falsy_def)

lemma checkPermission_granted:
  assumes "isActive user" and "permission \<in> set (getRolePermissions this (role user))"
  shows "RoleBasedAccessControl_checkPermission this user permission resource
           = RoleBasedAccessControl_checkResourceAccess this user permission resource"
    and "RBACService_checkPermission this user permission resource
           = RBACService_checkResourceAccess this user permission resource"
  using assms
  by (simp_all add: RoleBasedAccessControl_checkPermission_def
      RBACService_checkPermission_def)

lemma homeroom_rule:
  assumes "role user = HOMEROOM_TEACHER"
    and "permission \<in> {MANAGE_CLASS, MANAGE_STUDENTS, EDIT_STUDENT_INFO}"
  shows "RoleBasedAccessControl_checkResourceAccess this user permission resource
           = (if and_then (getProp resource ''classId'') (\<lambda>c. classId user = Some c)
              then allow else deny HomeroomClassOnly)"
    and "RBACService_checkResourceAccess this user permission resource
           = (if and_then (getProp resource ''classId'') (\<lambda>c. classId user = Some c)
                \<or> falsy (getProp resource ''classId'')
              then allow else deny HomeroomClassOnly)"
  using assms
  by (auto simp: RoleBasedAccessControl_checkResourceAccess_def
      RoleBasedAccessControl_homeroomTeacher_def RBACService_checkResourceAccess_def
      RBACService_homeroomTeacher_def)

lemma general_grades_rule:
  assumes "role user = GENERAL_TEACHER"
  shows "RoleBasedAccessControl_checkResourceAccess this user MANAGE_GRADES resource
           = (if and_then (getProp resource ''subjectId'') (includesOpt (subjectIds user))
              then allow else deny OwnSubjectGradesOnly)"
    and "RBACService_checkResourceAccess this user MANAGE_GRADES resource
           = (if and_then (getProp resource ''subjectId'') (includesOpt (subjectIds user))
              then allow else deny OwnSubjectGradesOnly)"
  using assms
  by (simp_all add: RoleBasedAccessControl_checkResourceAccess_def
      RoleBasedAccessControl_generalTeacher_def RBACService_checkResourceAccess_def
      RBACService_generalTeacher_def)

lemma general_counseling_rule:
  assumes "role user = GENERAL_TEACHER"
  shows "RoleBasedAccessControl_checkResourceAccess this user CONDUCT_COUNSELING resource
           = (if and_then (getProp resource ''studentId'') (isTeachingStudent this user)
              then allow else deny OwnStudentsCounselingOnly)"
    and "RBACService_checkResourceAccess this user CONDUCT_COUNSELING resource
           = (if and_then (getProp resource ''studentId'') (isTeachingStudent this user)
              then allow else deny OwnStudentsCounselingOnly)"
  using assms
  by (simp_all add: RoleBasedAccessControl_checkResourceAccess_def
      RoleBasedAccessControl_generalTeacher_def RBACService_checkResourceAccess_def
      RBACService_generalTeacher_def)

lemma general_view_rule:
  assumes "role user = GENERAL_TEACHER"
    and "permission \<in> {VIEW_STUDENTS, VIEW_GRADES, VIEW_ATTENDANCE}"
  shows "RoleBasedAccessControl_checkResourceAccess this user permission resource
           = (if and_then (getProp resource ''classId'') (isTeachingClass this user)
              then allow else deny OwnClassStudentsOnly)"
    and "RBACService_checkResourceAccess this user permission resource = allow"
  using assms
  by (auto simp: RoleBasedAccessControl_checkResourceAccess_def
      RoleBasedAccessControl_generalTeacher_def RBACService_checkResourceAccess_def
      RBACService_generalTeacher_def)

subsection \<open>Homeroom teacher: own class\<close>

text \<open>
  Claim C3, as stated, fails at two inputs. The standalone script's sample homeroom
  teacher asking for MANAGE_CLASS with no resource is denied by
  \<^verbatim>\<open>RoleBasedAccessControl\<close> (lines 215-218 have no branch for a missing class id),
  where the claim says allowed. And \<^verbatim>\<open>RBACService\<close> allows the same teacher
  MANAGE_STUDENTS on a resource whose class id is the empty string, which differs from
  the teacher's class: \<^verbatim>\<open>!resource?.classId\<close> (line 91) reads the empty string as no
  class id.
\<close>

theorem C3_counterexample:
  "RoleBasedAccessControl_checkPermission new_RoleBasedAccessControl (teacher1 0)
       MANAGE_CLASS None
     = \<lparr>allowed = False, reason = Some HomeroomClassOnly\<rparr>
   \<and> getProp (Some [''classId'' \<mapsto> '''']) ''classId'' = Some ''''
   \<and> classId (teacher1 0) \<noteq> Some ''''
   \<and> RBACService_checkPermission new_RBACService (teacher1 0) MANAGE_STUDENTS
       (Some [''classId'' \<mapsto> ''''])
     = \<lparr>allowed = True, reason = None\<rparr>"
  by (simp add: checkPermission_granted getRolePermissions_homeroom homeroom_rule
      and_then_def falsy_def getProp_def allow_def deny_def)

text \<open>
  Claim C3, amended. For an active homeroom teacher asking for MANAGE_CLASS,
  MANAGE_STUDENTS or EDIT_STUDENT_INFO on an object that holds the shipped table: when
  the resource carries a non-empty class id, both implementations allow if it is the
  teacher's own class id and deny with the homeroom-class-only reason otherwise; when
  the resource is absent, or its class id is absent or empty, \<^verbatim>\<open>RBACService\<close> allows.
  Nothing is said of \<^verbatim>\<open>RoleBasedAccessControl\<close> in that last case.
\<close>

theorem C3_homeroom_own_class:
  assumes "isActive user" and "role user = HOMEROOM_TEACHER"
    and "permission \<in> {MANAGE_CLASS, MANAGE_STUDENTS, EDIT_STUDENT_INFO}"
    and "rolePermissions this = initializeRolePermissions"
  shows "(\<forall>c. getProp resource ''classId'' = Some c \<and> c \<noteq> [] \<longrightarrow>
            RoleBasedAccessControl_checkPermission this user permission resource
              = (if classId user = Some c then \<lparr>allowed = True, reason = None\<rparr>
                 else \<lparr>allowed = False, reason = Some HomeroomClassOnly\<rparr>)
          \<and> RBACService_checkPermission this user permission resource
              = (if classId user = Some c then \<lparr>allowed = True, reason = None\<rparr>
                 else \<lparr>allowed = False, reason = Some HomeroomClassOnly\<rparr>))
       \<and> (getProp resource ''classId'' = None \<or> getProp resource ''classId'' = Some [] \<longrightarrow>
            RBACService_checkPermission this user permission resource
              = \<lparr>allowed = True, reason = None\<rparr>)"
proof -
  from assms have granted: "permission \<in> set (getRolePermissions this (role user))"
    by (auto simp: getRolePermissions_homeroom)
  note rules = checkPermission_granted [OF assms(1) granted]
    homeroom_rule [OF assms(2,3)]
  show ?thesis
    by (auto simp: rules and_then_iff falsy_iff allow_def deny_def)
qed

theorem C3_homeroom_own_class_witness:
  "RoleBasedAccessControl_checkPermission new_RoleBasedAccessControl (teacher1 0)
       MANAGE_STUDENTS (Some [''classId'' \<mapsto> ''class-3-1''])
     = \<lparr>allowed = True, reason = None\<rparr>
   \<and> RBACService_checkPermission new_RBACService (teacher1 0)
       MANAGE_STUDENTS (Some [''classId'' \<mapsto> ''class-9-9''])
     = \<lparr>allowed = False, reason = Some HomeroomClassOnly\<rparr>
   \<and> RBACService_checkPermission new_RBACService (teacher1 0) MANAGE_STUDENTS None
     = \<lparr>allowed = True, reason = None\<rparr>"
proof -
  have pre: "isActive (teacher1 0)" "role (teacher1 0) = HOMEROOM_TEACHER"
    "MANAGE_STUDENTS \<in> {MANAGE_CLASS, MANAGE_STUDENTS, EDIT_STUDENT_INFO}"
    by simp_all
  have own: "getProp (Some [''classId'' \<mapsto> ''class-3-1'']) ''classId'' = Some ''class-3-1''
      \<and> ''class-3-1'' \<noteq> []"
    and other: "getProp (Some [''classId'' \<mapsto> ''class-9-9'']) ''classId'' = Some ''class-9-9''
      \<and> ''class-9-9'' \<noteq> []"
    and none: "getProp None ''classId'' = None"
    by (simp_all add: getProp_def)
  from C3_homeroom_own_class [OF pre shipped_table(1),
      of "Some [''classId'' \<mapsto> ''class-3-1'']"] own
  have first: "RoleBasedAccessControl_checkPermission new_RoleBasedAccessControl (teacher1 0)
       MANAGE_STUDENTS (Some [''classId'' \<mapsto> ''class-3-1''])
     = \<lparr>allowed = True, reason = None\<rparr>"
    by simp
  from C3_homeroom_own_class [OF pre shipped_table(2),
      of "Some [''classId'' \<mapsto> ''class-9-9'']"] other
  have second: "RBACService_checkPermission new_RBACService (teacher1 0)
       MANAGE_STUDENTS (Some [''classId'' \<mapsto> ''class-9-9''])
     = \<lparr>allowed = False, reason = Some HomeroomClassOnly\<rparr>"
    by simp
  from C3_homeroom_own_class [OF pre shipped_table(2), of None] none
  have third: "RBACService_checkPermission new_RBACService (teacher1 0) MANAGE_STUDENTS None
     = \<lparr>allowed = True, reason = None\<rparr>"
    by simp
  from first second third show ?thesis
    by blast
qed

subsection \<open>General teacher: grades of own subjects\<close>

text \<open>
  Claim C4, as stated, fails for the empty string: a general teacher whose subject ids
  contain the empty string, asking for MANAGE_GRADES on a resource whose subject id is
  the empty string, is denied by both implementations, although the resource is
  present, carries a subject id and that id is one of the teacher's. The test
  \<^verbatim>\<open>resource?.subjectId && ...\<close> reads the empty string as false.
\<close>

theorem C4_counterexample:
  "isActive ((teacher2 0)\<lparr>subjectIds := Some ['''', ''math'']\<rparr>)
   \<and> role ((teacher2 0)\<lparr>subjectIds := Some ['''', ''math'']\<rparr>) = GENERAL_TEACHER
   \<and> getProp (Some [''subjectId'' \<mapsto> '''']) ''subjectId'' = Some ''''
   \<and> '''' \<in> set ['''', ''math'']
   \<and> RoleBasedAccessControl_checkPermission new_RoleBasedAccessControl
       ((teacher2 0)\<lparr>subjectIds := Some ['''', ''math'']\<rparr>) MANAGE_GRADES
       (Some [''subjectId'' \<mapsto> ''''])
     = \<lparr>allowed = False, reason = Some OwnSubjectGradesOnly\<rparr>
   \<and> RBACService_checkPermission new_RBACService
       ((teacher2 0)\<lparr>subjectIds := Some ['''', ''math'']\<rparr>) MANAGE_GRADES
       (Some [''subjectId'' \<mapsto> ''''])
     = \<lparr>allowed = False, reason = Some OwnSubjectGradesOnly\<rparr>"
  by (simp add: checkPermission_granted getRolePermissions_general general_grades_rule
      and_then_def getProp_def deny_def)

text \<open>
  Claim C4, amended. For an active general teacher asking for MANAGE_GRADES on an object
  that holds the shipped table, both implementations allow exactly when the resource is
  present, carries a non-empty subject id, and that id is one of the teacher's subject
  ids; in every other case (no resource, no subject id, an empty one, a subject not
  taught, a teacher with no subject list) they deny with the own-subject-grades-only
  reason.
\<close>

theorem C4_general_own_subject:
  assumes "isActive user" and "role user = GENERAL_TEACHER"
    and "rolePermissions this = initializeRolePermissions"
  shows "RoleBasedAccessControl_checkPermission this user MANAGE_GRADES resource
           = (if \<exists>r sid ids. resource = Some r \<and> r ''subjectId'' = Some sid \<and> sid \<noteq> []
                    \<and> subjectIds user = Some ids \<and> sid \<in> set ids
              then \<lparr>allowed = True, reason = None\<rparr>
              else \<lparr>allowed = False, reason = Some OwnSubjectGradesOnly\<rparr>)
       \<and> RBACService_checkPermission this user MANAGE_GRADES resource
           = (if \<exists>r sid ids. resource = Some r \<and> r ''subjectId'' = Some sid \<and> sid \<noteq> []
                    \<and> subjectIds user = Some ids \<and> sid \<in> set ids
              then \<lparr>allowed = True, reason = None\<rparr>
              else \<lparr>allowed = False, reason = Some OwnSubjectGradesOnly\<rparr>)"
proof -
  from assms have granted: "MANAGE_GRADES \<in> set (getRolePermissions this (role user))"
    by (simp add: getRolePermissions_general)
  have cond: "and_then (getProp resource ''subjectId'') (includesOpt (subjectIds user))
      \<longleftrightarrow> (\<exists>r sid ids. resource = Some r \<and> r ''subjectId'' = Some sid \<and> sid \<noteq> []
            \<and> subjectIds user = Some ids \<and> sid \<in> set ids)"
    by (cases resource; cases "subjectIds user")
      (auto simp: and_then_iff getProp_def includesOpt_def)
  show ?thesis
    by (simp add: checkPermission_granted [OF assms(1) granted]
        general_grades_rule [OF assms(2)] cond allow_def deny_def)
qed

theorem C4_general_own_subject_witness:
  "RoleBasedAccessControl_checkPermission new_RoleBasedAccessControl (teacher2 0)
       MANAGE_GRADES (Some [''subjectId'' \<mapsto> ''math''])
     = \<lparr>allowed = True, reason = None\<rparr>
   \<and> RBACService_checkPermission new_RBACService (teacher2 0)
       MANAGE_GRADES (Some [''subjectId'' \<mapsto> ''history''])
     = \<lparr>allowed = False, reason = Some OwnSubjectGradesOnly\<rparr>
   \<and> RBACService_checkPermission new_RBACService (teacher2 0) MANAGE_GRADES None
     = \<lparr>allowed = False, reason = Some OwnSubjectGradesOnly\<rparr>"
proof -
  have pre: "isActive (teacher2 0)" "role (teacher2 0) = GENERAL_TEACHER"
    by simp_all
  from C4_general_own_subject [OF pre shipped_table(1),
      of "Some [''subjectId'' \<mapsto> ''math'']"]
  have first: "RoleBasedAccessControl_checkPermission new_RoleBasedAccessControl (teacher2 0)
       MANAGE_GRADES (Some [''subjectId'' \<mapsto> ''math''])
     = \<lparr>allowed = True, reason = None\<rparr>"
    by simp
  from C4_general_own_subject [OF pre shipped_table(2),
      of "Some [''subjectId'' \<mapsto> ''history'']"]
  have second: "RBACService_checkPermission new_RBACService (teacher2 0)
       MANAGE_GRADES (Some [''subjectId'' \<mapsto> ''history''])
     = \<lparr>allowed = False, reason = Some OwnSubjectGradesOnly\<rparr>"
    by simp
  from C4_general_own_subject [OF pre shipped_table(2), of None]
  have third: "RBACService_checkPermission new_RBACService (teacher2 0) MANAGE_GRADES None
     = \<lparr>allowed = False, reason = Some OwnSubjectGradesOnly\<rparr>"
    by simp
  from first second third show ?thesis
    by blast
qed

subsection \<open>General teacher: viewing a class\<close>

text \<open>
  Claim C5, as stated, fails on \<^verbatim>\<open>RBACService\<close>: its view rule returns
  \<^verbatim>\<open>{ allowed: true }\<close> on both paths (lines 74-77), so a general teacher is allowed
  VIEW_GRADES on a class also when the object's class lookup answers false for that
  teacher and that class.
\<close>

theorem C5_counterexample:
  "\<not> isTeachingClass (new_RBACService\<lparr>isTeachingClass := \<lambda>teacher c. False\<rparr>)
        (teacher2 0) ''class-9-9''
   \<and> RBACService_checkPermission
       (new_RBACService\<lparr>isTeachingClass := \<lambda>teacher c. False\<rparr>) (teacher2 0)
       VIEW_GRADES (Some [''classId'' \<mapsto> ''class-9-9''])
     = \<lparr>allowed = True, reason = None\<rparr>"
  by (simp add: checkPermission_granted getRolePermissions_general general_view_rule
      allow_def)

text \<open>
  Claim C5, amended. For an active general teacher asking for VIEW_STUDENTS, VIEW_GRADES
  or VIEW_ATTENDANCE on a resource that carries a class id, on an object that holds the
  shipped table: \<^verbatim>\<open>RoleBasedAccessControl\<close> allows exactly when the class id is not
  empty and the object's class lookup confirms that the teacher teaches the class, and
  denies with the own-class-students-only reason otherwise; \<^verbatim>\<open>RBACService\<close> allows
  whatever the lookup answers. The lookup both classes ship confirms every teacher and
  every class.
\<close>

theorem C5_general_view_class:
  assumes "isActive user" and "role user = GENERAL_TEACHER"
    and "permission \<in> {VIEW_STUDENTS, VIEW_GRADES, VIEW_ATTENDANCE}"
    and "rolePermissions this = initializeRolePermissions"
    and "getProp resource ''classId'' = Some c"
  shows "RoleBasedAccessControl_checkPermission this user permission resource
           = (if c \<noteq> [] \<and> isTeachingClass this user c
              then \<lparr>allowed = True, reason = None\<rparr>
              else \<lparr>allowed = False, reason = Some OwnClassStudentsOnly\<rparr>)
       \<and> RBACService_checkPermission this user permission resource
           = \<lparr>allowed = True, reason = None\<rparr>
       \<and> isTeachingClass new_RoleBasedAccessControl user c
       \<and> isTeachingClass new_RBACService user c"
proof -
  from assms have granted: "permission \<in> set (getRolePermissions this (role user))"
    by (auto simp: getRolePermissions_general)
  show ?thesis
    by (simp add: checkPermission_granted [OF assms(1) granted]
        general_view_rule [OF assms(2,3)] assms(5) and_then_def allow_def deny_def)
qed

theorem C5_general_view_class_witness:
  "RoleBasedAccessControl_checkPermission new_RoleBasedAccessControl (teacher2 0)
       VIEW_STUDENTS (Some [''classId'' \<mapsto> ''class-3-1''])
     = \<lparr>allowed = True, reason = None\<rparr>
   \<and> RoleBasedAccessControl_checkPermission
       (new_RoleBasedAccessControl\<lparr>isTeachingClass := \<lambda>teacher c. c = ''class-3-1''\<rparr>)
       (teacher2 0) VIEW_STUDENTS (Some [''classId'' \<mapsto> ''class-9-9''])
     = \<lparr>allowed = False, reason = Some OwnClassStudentsOnly\<rparr>
   \<and> RBACService_checkPermission
       (new_RBACService\<lparr>isTeachingClass := \<lambda>teacher c. c = ''class-3-1''\<rparr>)
       (teacher2 0) VIEW_STUDENTS (Some [''classId'' \<mapsto> ''class-9-9''])
     = \<lparr>allowed = True, reason = None\<rparr>"
proof -
  have pre: "isActive (teacher2 0)" "role (teacher2 0) = GENERAL_TEACHER"
    "VIEW_STUDENTS \<in> {VIEW_STUDENTS, VIEW_GRADES, VIEW_ATTENDANCE}"
    by simp_all
  have own: "getProp (Some [''classId'' \<mapsto> ''class-3-1'']) ''classId'' = Some ''class-3-1''"
    and other: "getProp (Some [''classId'' \<mapsto> ''class-9-9'']) ''classId'' = Some ''class-9-9''"
    by (simp_all add: getProp_def)
  have table: "rolePermissions
        (new_RoleBasedAccessControl\<lparr>isTeachingClass := \<lambda>teacher c. c = ''class-3-1''\<rparr>)
      = initializeRolePermissions"
    "rolePermissions (new_RBACService\<lparr>isTeachingClass := \<lambda>teacher c. c = ''class-3-1''\<rparr>)
      = initializeRolePermissions"
    by simp_all
  from C5_general_view_class [OF pre shipped_table(1) own]
  have first: "RoleBasedAccessControl_checkPermission new_RoleBasedAccessControl (teacher2 0)
       VIEW_STUDENTS (Some [''classId'' \<mapsto> ''class-3-1''])
     = \<lparr>allowed = True, reason = None\<rparr>"
    by simp
  from C5_general_view_class [OF pre table(1) other]
  have second: "RoleBasedAccessControl_checkPermission
       (new_RoleBasedAccessControl\<lparr>isTeachingClass := \<lambda>teacher c. c = ''class-3-1''\<rparr>)
       (teacher2 0) VIEW_STUDENTS (Some [''classId'' \<mapsto> ''class-9-9''])
     = \<lparr>allowed = False, reason = Some OwnClassStudentsOnly\<rparr>"
    by simp
  from C5_general_view_class [OF pre table(2) other]
  have third: "RBACService_checkPermission
       (new_RBACService\<lparr>isTeachingClass := \<lambda>teacher c. c = ''class-3-1''\<rparr>)
       (teacher2 0) VIEW_STUDENTS (Some [''classId'' \<mapsto> ''class-9-9''])
     = \<lparr>allowed = True, reason = None\<rparr>"
    by simp
  from first second third show ?thesis
    by blast
qed

subsection \<open>General teacher: counselling own students\<close>

text \<open>
  Claim C6, as stated, fails for the empty string: on the shipped objects, whose student
  lookup confirms every teacher and every id, a resource whose student id is the empty
  string carries a student id that the lookup confirms, and the request is denied. The
  test \<^verbatim>\<open>resource?.studentId && ...\<close> reads the empty string as false.
\<close>

theorem C6_counterexample:
  "getProp (Some [''studentId'' \<mapsto> '''']) ''studentId'' = Some ''''
   \<and> isTeachingStudent new_RoleBasedAccessControl (teacher2 0) ''''
   \<and> isTeachingStudent new_RBACService (teacher2 0) ''''
   \<and> RoleBasedAccessControl_checkPermission new_RoleBasedAccessControl (teacher2 0)
       CONDUCT_COUNSELING (Some [''studentId'' \<mapsto> ''''])
     = \<lparr>allowed = False, reason = Some OwnStudentsCounselingOnly\<rparr>
   \<and> RBACService_checkPermission new_RBACService (teacher2 0)
       CONDUCT_COUNSELING (Some [''studentId'' \<mapsto> ''''])
     = \<lparr>allowed = False, reason = Some OwnStudentsCounselingOnly\<rparr>"
  by (simp add: checkPermission_granted getRolePermissions_general
      general_counseling_rule and_then_def getProp_def deny_def)

text \<open>
  Claim C6, amended. For an active general teacher asking for CONDUCT_COUNSELING on an
  object that holds the shipped table, both implementations allow exactly when the
  resource carries a non-empty student id and the object's student lookup confirms that
  the teacher teaches that student; otherwise (no resource, no student id, an empty one,
  or a student the lookup does not confirm) they deny with the
  own-students-counselling-only reason. The lookup both classes ship confirms every
  teacher and every student.
\<close>

theorem C6_general_own_student:
  assumes "isActive user" and "role user = GENERAL_TEACHER"
    and "rolePermissions this = initializeRolePermissions"
  shows "RoleBasedAccessControl_checkPermission this user CONDUCT_COUNSELING resource
           = (if \<exists>r sid. resource = Some r \<and> r ''studentId'' = Some sid \<and> sid \<noteq> []
                    \<and> isTeachingStudent this user sid
              then \<lparr>allowed = True, reason = None\<rparr>
              else \<lparr>allowed = False, reason = Some OwnStudentsCounselingOnly\<rparr>)
       \<and> RBACService_checkPermission this user CONDUCT_COUNSELING resource
           = (if \<exists>r sid. resource = Some r \<and> r ''studentId'' = Some sid \<and> sid \<noteq> []
                    \<and> isTeachingStudent this user sid
              then \<lparr>allowed = True, reason = None\<rparr>
              else \<lparr>allowed = False, reason = Some OwnStudentsCounselingOnly\<rparr>)
       \<and> isTeachingStudent new_RoleBasedAccessControl user studentId
       \<and> isTeachingStudent new_RBACService user studentId"
proof -
  from assms have granted: "CONDUCT_COUNSELING \<in> set (getRolePermissions this (role user))"
    by (simp add: getRolePermissions_general)
  have cond: "and_then (getProp resource ''studentId'') (isTeachingStudent this user)
      \<longleftrightarrow> (\<exists>r sid. resource = Some r \<and> r ''studentId'' = Some sid \<and> sid \<noteq> []
            \<and> isTeachingStudent this user sid)"
    by (cases resource) (auto simp: and_then_iff getProp_def)
  show ?thesis
    by (simp add: checkPermission_granted [OF assms(1) granted]
        general_counseling_rule [OF assms(2)] cond allow_def deny_def)
qed

theorem C6_general_own_student_witness:
  "RoleBasedAccessControl_checkPermission new_RoleBasedAccessControl (teacher2 0)
       CONDUCT_COUNSELING (Some [''studentId'' \<mapsto> ''student1''])
     = \<lparr>allowed = True, reason = None\<rparr>
   \<and> RBACService_checkPermission
       (new_RBACService\<lparr>isTeachingStudent := \<lambda>teacher s. s = ''student1''\<rparr>)
       (teacher2 0) CONDUCT_COUNSELING (Some [''studentId'' \<mapsto> ''student2''])
     = \<lparr>allowed = False, reason = Some OwnStudentsCounselingOnly\<rparr>
   \<and> RBACService_checkPermission new_RBACService (teacher2 0) CONDUCT_COUNSELING None
     = \<lparr>allowed = False, reason = Some OwnStudentsCounselingOnly\<rparr>"
proof -
  have pre: "isActive (teacher2 0)" "role (teacher2 0) = GENERAL_TEACHER"
    by simp_all
  have table: "rolePermissions
        (new_RBACService\<lparr>isTeachingStudent := \<lambda>teacher s. s = ''student1''\<rparr>)
      = initializeRolePermissions"
    by simp
  from C6_general_own_student [OF pre shipped_table(1),
      of "Some [''studentId'' \<mapsto> ''student1'']"]
  have first: "RoleBasedAccessControl_checkPermission new_RoleBasedAccessControl (teacher2 0)
       CONDUCT_COUNSELING (Some [''studentId'' \<mapsto> ''student1''])
     = \<lparr>allowed = True, reason = None\<rparr>"
    by simp
  from C6_general_own_student [OF pre table,
      of "Some [''studentId'' \<mapsto> ''student2'']"]
  have second: "RBACService_checkPermission
       (new_RBACService\<lparr>isTeachingStudent := \<lambda>teacher s. s = ''student1''\<rparr>)
       (teacher2 0) CONDUCT_COUNSELING (Some [''studentId'' \<mapsto> ''student2''])
     = \<lparr>allowed = False, reason = Some OwnStudentsCounselingOnly\<rparr>"
    by simp
  from C6_general_own_student [OF pre shipped_table(2), of None]
  have third: "RBACService_checkPermission new_RBACService (teacher2 0)
       CONDUCT_COUNSELING None
     = \<lparr>allowed = False, reason = Some OwnStudentsCounselingOnly\<rparr>"
    by simp
  from first second third show ?thesis
    by blast
qed

section \<open>The two implementations compared\<close>

lemma not_falsy_and_then: "and_then v (\<lambda>s. True) \<longleftrightarrow> \<not> falsy v"
  by (cases v) (simp_all add: and_then_def falsy_def)

lemma shipped_isTeachingClass:
  "isTeachingClass new_RoleBasedAccessControl = (\<lambda>teacher c. True)"
  by (simp add: new_RoleBasedAccessControl_def)

lemma shipped_objects_equal: "new_RBACService = new_RoleBasedAccessControl"
  by (simp add: new_RBACService_def new_RoleBasedAccessControl_def)

lemma checkResourceAccess_shipped:
  "RoleBasedAccessControl_checkResourceAccess new_RoleBasedAccessControl user permission
       resource
     = (if (role user = GENERAL_TEACHER
              \<and> permission \<in> {VIEW_STUDENTS, VIEW_GRADES, VIEW_ATTENDANCE}
            \<or> role user = HOMEROOM_TEACHER
              \<and> permission \<in> {MANAGE_CLASS, MANAGE_STUDENTS, EDIT_STUDENT_INFO})
           \<and> falsy (getProp resource ''classId'')
        then deny (if role user = GENERAL_TEACHER then OwnClassStudentsOnly
                   else HomeroomClassOnly)
        else RBACService_checkResourceAccess new_RBACService user permission resource)"
proof (cases "role user")
  case HOMEROOM_TEACHER
  then show ?thesis
    by (cases permission)
      (auto simp: RoleBasedAccessControl_checkResourceAccess_def
        RoleBasedAccessControl_homeroomTeacher_def RBACService_checkResourceAccess_def
        RBACService_homeroomTeacher_def and_then_iff falsy_iff)
next
  case GENERAL_TEACHER
  then show ?thesis
    by (cases permission)
      (auto simp: RoleBasedAccessControl_checkResourceAccess_def
        RoleBasedAccessControl_generalTeacher_def RBACService_checkResourceAccess_def
        RBACService_generalTeacher_def shipped_isTeachingClass not_falsy_and_then
        shipped_objects_equal)
qed

text \<open>
  Claim C7, as stated, fails: for the standalone script's sample general teacher asking
  for VIEW_STUDENTS with no resource, \<^verbatim>\<open>RoleBasedAccessControl\<close> denies and
  \<^verbatim>\<open>RBACService\<close> allows.
\<close>

theorem C7_counterexample:
  "allowed (RoleBasedAccessControl_checkPermission new_RoleBasedAccessControl (teacher2 0)
       VIEW_STUDENTS None)
     \<noteq> allowed (RBACService_checkPermission new_RBACService (teacher2 0) VIEW_STUDENTS None)"
  by (simp add: checkPermission_granted getRolePermissions_general general_view_rule
      and_then_def getProp_def allow_def deny_def)

text \<open>
  Claim C7, amended. On the shipped objects the two implementations return the same
  result, decision and reason, for every user, permission and resource outside two
  families of inputs: (a) an active general teacher asking for VIEW_STUDENTS, VIEW_GRADES
  or VIEW_ATTENDANCE, and (b) an active homeroom teacher asking for MANAGE_CLASS,
  MANAGE_STUDENTS or EDIT_STUDENT_INFO, in both cases with no resource or with a class
  id that is absent or empty. On family (a) \<^verbatim>\<open>RoleBasedAccessControl\<close> denies with the
  own-class-students-only reason and \<^verbatim>\<open>RBACService\<close> allows. On every input,
  \<^verbatim>\<open>RBACService\<close> allows whatever \<^verbatim>\<open>RoleBasedAccessControl\<close> allows.
\<close>

theorem C7_agreement:
  "(\<not> (isActive user \<and> falsy (getProp resource ''classId'')
         \<and> (role user = GENERAL_TEACHER
               \<and> permission \<in> {VIEW_STUDENTS, VIEW_GRADES, VIEW_ATTENDANCE}
             \<or> role user = HOMEROOM_TEACHER
               \<and> permission \<in> {MANAGE_CLASS, MANAGE_STUDENTS, EDIT_STUDENT_INFO})) \<longrightarrow>
      RoleBasedAccessControl_checkPermission new_RoleBasedAccessControl user permission
          resource
        = RBACService_checkPermission new_RBACService user permission resource)
   \<and> (isActive user \<and> falsy (getProp resource ''classId'') \<and> role user = GENERAL_TEACHER
        \<and> permission \<in> {VIEW_STUDENTS, VIEW_GRADES, VIEW_ATTENDANCE} \<longrightarrow>
      RoleBasedAccessControl_checkPermission new_RoleBasedAccessControl user permission
          resource
        = \<lparr>allowed = False, reason = Some OwnClassStudentsOnly\<rparr>
      \<and> RBACService_checkPermission new_RBACService user permission resource
        = \<lparr>allowed = True, reason = None\<rparr>)
   \<and> (allowed (RoleBasedAccessControl_checkPermission new_RoleBasedAccessControl user
          permission resource) \<longrightarrow>
      allowed (RBACService_checkPermission new_RBACService user permission resource))"
proof (intro conjI impI)
  assume "\<not> (isActive user \<and> falsy (getProp resource ''classId'')
         \<and> (role user = GENERAL_TEACHER
               \<and> permission \<in> {VIEW_STUDENTS, VIEW_GRADES, VIEW_ATTENDANCE}
             \<or> role user = HOMEROOM_TEACHER
               \<and> permission \<in> {MANAGE_CLASS, MANAGE_STUDENTS, EDIT_STUDENT_INFO}))"
  then show "RoleBasedAccessControl_checkPermission new_RoleBasedAccessControl user
        permission resource
      = RBACService_checkPermission new_RBACService user permission resource"
    unfolding RoleBasedAccessControl_checkPermission_def RBACService_checkPermission_def
      checkResourceAccess_shipped
    by (auto simp: shipped_objects_equal)
next
  assume general: "isActive user \<and> falsy (getProp resource ''classId'')
      \<and> role user = GENERAL_TEACHER
      \<and> permission \<in> {VIEW_STUDENTS, VIEW_GRADES, VIEW_ATTENDANCE}"
  then have granted:
    "permission \<in> set (getRolePermissions new_RoleBasedAccessControl (role user))"
    "permission \<in> set (getRolePermissions new_RBACService (role user))"
    by (auto simp: getRolePermissions_general)
  from general
  show "RoleBasedAccessControl_checkPermission new_RoleBasedAccessControl user permission
        resource
      = \<lparr>allowed = False, reason = Some OwnClassStudentsOnly\<rparr>"
    by (simp add: checkPermission_granted(1) [OF _ granted(1)] general_view_rule
        shipped_isTeachingClass not_falsy_and_then deny_def)
  from general
  show "RBACService_checkPermission new_RBACService user permission resource
      = \<lparr>allowed = True, reason = None\<rparr>"
    by (simp add: checkPermission_granted(2) [OF _ granted(2)] general_view_rule allow_def)
next
  assume "allowed (RoleBasedAccessControl_checkPermission new_RoleBasedAccessControl user
      permission resource)"
  then show "allowed (RBACService_checkPermission new_RBACService user permission resource)"
    unfolding RoleBasedAccessControl_checkPermission_def RBACService_checkPermission_def
      checkResourceAccess_shipped
    by (auto simp: shipped_objects_equal deny_def split: if_splits)
qed

theorem C7_agreement_witness:
  "RoleBasedAccessControl_checkPermission new_RoleBasedAccessControl (teacher1 0)
       EXPORT_GRADES None
     = RBACService_checkPermission new_RBACService (teacher1 0) EXPORT_GRADES None
   \<and> RoleBasedAccessControl_checkPermission new_RoleBasedAccessControl (teacher2 0)
       VIEW_ATTENDANCE None
     = \<lparr>allowed = False, reason = Some OwnClassStudentsOnly\<rparr>
   \<and> RBACService_checkPermission new_RBACService (teacher2 0) VIEW_ATTENDANCE None
     = \<lparr>allowed = True, reason = None\<rparr>
   \<and> allowed (RoleBasedAccessControl_checkPermission new_RoleBasedAccessControl
       (teacher2 0) MANAGE_GRADES (Some [''subjectId'' \<mapsto> ''science'']))
   \<and> allowed (RBACService_checkPermission new_RBACService (teacher2 0) MANAGE_GRADES
       (Some [''subjectId'' \<mapsto> ''science'']))"
proof -
  have outside: "\<not> (isActive (teacher1 0) \<and> falsy (getProp None ''classId'')
         \<and> (role (teacher1 0) = GENERAL_TEACHER
               \<and> EXPORT_GRADES \<in> {VIEW_STUDENTS, VIEW_GRADES, VIEW_ATTENDANCE}
             \<or> role (teacher1 0) = HOMEROOM_TEACHER
               \<and> EXPORT_GRADES \<in> {MANAGE_CLASS, MANAGE_STUDENTS, EDIT_STUDENT_INFO}))"
    by simp
  have inside: "isActive (teacher2 0) \<and> falsy (getProp None ''classId'')
      \<and> role (teacher2 0) = GENERAL_TEACHER
      \<and> VIEW_ATTENDANCE \<in> {VIEW_STUDENTS, VIEW_GRADES, VIEW_ATTENDANCE}"
    by (simp add: falsy_def getProp_def)
  have science: "allowed (RoleBasedAccessControl_checkPermission new_RoleBasedAccessControl
       (teacher2 0) MANAGE_GRADES (Some [''subjectId'' \<mapsto> ''science'']))"
    by (simp add: checkPermission_granted getRolePermissions_general general_grades_rule
        and_then_def getProp_def includesOpt_def allow_def)
  from C7_agreement [of "teacher1 0" None EXPORT_GRADES] outside
  have first: "RoleBasedAccessControl_checkPermission new_RoleBasedAccessControl (teacher1 0)
       EXPORT_GRADES None
     = RBACService_checkPermission new_RBACService (teacher1 0) EXPORT_GRADES None"
    by blast
  from C7_agreement [of "teacher2 0" None VIEW_ATTENDANCE] inside
  have second: "RoleBasedAccessControl_checkPermission new_RoleBasedAccessControl (teacher2 0)
       VIEW_ATTENDANCE None
     = \<lparr>allowed = False, reason = Some OwnClassStudentsOnly\<rparr>
   \<and> RBACService_checkPermission new_RBACService (teacher2 0) VIEW_ATTENDANCE None
     = \<lparr>allowed = True, reason = None\<rparr>"
    by blast
  from C7_agreement [of "teacher2 0" "Some [''subjectId'' \<mapsto> ''science'']" MANAGE_GRADES]
    science
  have third: "allowed (RBACService_checkPermission new_RBACService (teacher2 0)
       MANAGE_GRADES (Some [''subjectId'' \<mapsto> ''science'']))"
    by blast
  from first second science third show ?thesis
    by blast
qed

section \<open>Determinism and absence of side effects\<close>

lemma run_reads [simp]:
  "run_state (this_rolePermissions r) s = (rolePermissions (fst s) r, s)"
  "run_state (user_property field) s = (field (snd s), s)"
  "run_state (this_isTeachingStudent studentId) s
     = (isTeachingStudent (fst s) (snd s) studentId, s)"
  "run_state (this_isTeachingClass c) s = (isTeachingClass (fst s) (snd s) c, s)"
  by (simp_all add: this_rolePermissions_def user_property_def this_isTeachingStudent_def
      this_isTeachingClass_def)

lemma run_and_then_call:
  assumes "\<And>c. run_state (f c) s = (g c, s)"
  shows "run_state (and_then_call v f) s = (and_then v g, s)"
  using assms by (cases v) (simp_all add: and_then_call_def and_then_def)

lemma run_getRolePermissions_program:
  "run_state (getRolePermissions_program r) s = (getRolePermissions (fst s) r, s)"
  by (simp add: getRolePermissions_program_def getRolePermissions_def)

lemma run_rules:
  "run_state (and_then_call v this_isTeachingClass) s
     = (and_then v (isTeachingClass (fst s) (snd s)), s)"
  "run_state (and_then_call v this_isTeachingStudent) s
     = (and_then v (isTeachingStudent (fst s) (snd s)), s)"
  "run_state (and_then_call v
       (\<lambda>subjectId. do { ids \<leftarrow> user_property subjectIds;
                         State_Monad.return (includesOpt ids subjectId) })) s
     = (and_then v (includesOpt (subjectIds (snd s))), s)"
  "run_state (and_then_call v
       (\<lambda>c. do { mine \<leftarrow> user_property classId; State_Monad.return (mine = Some c) })) s
     = (and_then v (\<lambda>c. classId (snd s) = Some c), s)"
  by (rule run_and_then_call, simp)+

lemma run_RoleBasedAccessControl_generalTeacher_program:
  "run_state (RoleBasedAccessControl_generalTeacher_program permission resource) s
     = (RoleBasedAccessControl_generalTeacher (fst s) (snd s) permission resource, s)"
  by (cases permission)
    (simp_all add: RoleBasedAccessControl_generalTeacher_program_def
      RoleBasedAccessControl_generalTeacher_def run_rules)

lemma run_RoleBasedAccessControl_homeroomTeacher_program:
  "run_state (RoleBasedAccessControl_homeroomTeacher_program permission resource) s
     = (RoleBasedAccessControl_homeroomTeacher (snd s) permission resource, s)"
  by (cases permission)
    (simp_all add: RoleBasedAccessControl_homeroomTeacher_program_def
      RoleBasedAccessControl_homeroomTeacher_def run_rules)

lemma run_RoleBasedAccessControl_checkResourceAccess_program:
  "run_state (RoleBasedAccessControl_checkResourceAccess_program permission resource) s
     = (RoleBasedAccessControl_checkResourceAccess (fst s) (snd s) permission resource, s)"
  by (simp add: RoleBasedAccessControl_checkResourceAccess_program_def
      RoleBasedAccessControl_checkResourceAccess_def
      run_RoleBasedAccessControl_generalTeacher_program
      run_RoleBasedAccessControl_homeroomTeacher_program split: option.split)

lemma run_RoleBasedAccessControl_checkPermission_program:
  "run_state (RoleBasedAccessControl_checkPermission_program permission resource) s
     = (RoleBasedAccessControl_checkPermission (fst s) (snd s) permission resource, s)"
  by (simp add: RoleBasedAccessControl_checkPermission_program_def
      RoleBasedAccessControl_checkPermission_def run_getRolePermissions_program
      run_RoleBasedAccessControl_checkResourceAccess_program)

lemma run_RBACService_generalTeacher_program:
  "run_state (RBACService_generalTeacher_program permission resource) s
     = (RBACService_generalTeacher (fst s) (snd s) permission resource, s)"
  by (cases permission)
    (simp_all add: RBACService_generalTeacher_program_def RBACService_generalTeacher_def
      run_rules)

lemma run_RBACService_homeroomTeacher_program:
  "run_state (RBACService_homeroomTeacher_program permission resource) s
     = (RBACService_homeroomTeacher (snd s) permission resource, s)"
  by (cases permission)
    (simp_all add: RBACService_homeroomTeacher_program_def RBACService_homeroomTeacher_def
      run_rules)

lemma run_RBACService_checkResourceAccess_program:
  "run_state (RBACService_checkResourceAccess_program permission resource) s
     = (RBACService_checkResourceAccess (fst s) (snd s) permission resource, s)"
  by (simp add: RBACService_checkResourceAccess_program_def
      RBACService_checkResourceAccess_def run_RBACService_generalTeacher_program
      run_RBACService_homeroomTeacher_program split: option.split)

lemma run_RBACService_checkPermission_program:
  "run_state (RBACService_checkPermission_program permission resource) s
     = (RBACService_checkPermission (fst s) (snd s) permission resource, s)"
  by (simp add: RBACService_checkPermission_program_def RBACService_checkPermission_def
      run_getRolePermissions_program run_RBACService_checkResourceAccess_program)

text \<open>
  The frame property below is a property of these two programs, not of every program
  over the same state: a program that assigns to \<^verbatim>\<open>user.isActive\<close> leaves another
  user record behind.
\<close>

lemma frame_is_not_for_free:
  "\<not> (\<forall>program :: (Reached, AuthorizationResult) state.
        \<forall>s. snd (run_state program s) = s)"
proof
  let ?deactivate = "do { State_Monad.update (\<lambda>s. (fst s, (snd s)\<lparr>isActive := False\<rparr>));
                          State_Monad.return allow }
                     :: (Reached, AuthorizationResult) state"
  assume "\<forall>program :: (Reached, AuthorizationResult) state.
      \<forall>s. snd (run_state program s) = s"
  then have "snd (run_state ?deactivate (new_RoleBasedAccessControl, teacher1 0))
      = (new_RoleBasedAccessControl, teacher1 0)"
    by blast
  then have "isActive ((teacher1 0)\<lparr>isActive := False\<rparr>) = isActive (teacher1 0)"
    by (simp add: State_Monad.update_def)
  then show False
    by simp
qed

text \<open>
  Claim C8. Run from any state of the receiver (with its role-permission table) and the
  user record, each of the two \<^verbatim>\<open>checkPermission\<close> programs returns the decision of
  the function of its arguments and leaves the receiver and the user record as it found
  them; and two calls in a row with the same permission and resource return the same
  decision twice, again with both objects unchanged.
\<close>

theorem C8_pure_and_repeatable:
  "run_state (RoleBasedAccessControl_checkPermission_program permission resource) s
     = (RoleBasedAccessControl_checkPermission (fst s) (snd s) permission resource, s)
   \<and> run_state
       (do { first \<leftarrow> RoleBasedAccessControl_checkPermission_program permission resource;
             second \<leftarrow> RoleBasedAccessControl_checkPermission_program permission resource;
             State_Monad.return (first, second) }) s
     = ((RoleBasedAccessControl_checkPermission (fst s) (snd s) permission resource,
         RoleBasedAccessControl_checkPermission (fst s) (snd s) permission resource), s)
   \<and> run_state (RBACService_checkPermission_program permission resource) s
     = (RBACService_checkPermission (fst s) (snd s) permission resource, s)
   \<and> run_state
       (do { first \<leftarrow> RBACService_checkPermission_program permission resource;
             second \<leftarrow> RBACService_checkPermission_program permission resource;
             State_Monad.return (first, second) }) s
     = ((RBACService_checkPermission (fst s) (snd s) permission resource,
         RBACService_checkPermission (fst s) (snd s) permission resource), s)"
  by (simp add: run_RoleBasedAccessControl_checkPermission_program
      run_RBACService_checkPermission_program)

theorem C8_pure_and_repeatable_witness:
  "run_state (RoleBasedAccessControl_checkPermission_program MANAGE_CLASS
       (Some [''classId'' \<mapsto> ''class-3-1''])) (new_RoleBasedAccessControl, teacher1 0)
     = (\<lparr>allowed = True, reason = None\<rparr>, (new_RoleBasedAccessControl, teacher1 0))
   \<and> run_state
       (do { first \<leftarrow> RBACService_checkPermission_program EXPORT_GRADES None;
             second \<leftarrow> RBACService_checkPermission_program EXPORT_GRADES None;
             State_Monad.return (first, second) }) (new_RBACService, teacher2 0)
     = ((\<lparr>allowed = False, reason = Some NoRolePermission\<rparr>,
         \<lparr>allowed = False, reason = Some NoRolePermission\<rparr>), (new_RBACService, teacher2 0))"
proof -
  have own: "RoleBasedAccessControl_checkPermission new_RoleBasedAccessControl (teacher1 0)
        MANAGE_CLASS (Some [''classId'' \<mapsto> ''class-3-1''])
      = \<lparr>allowed = True, reason = None\<rparr>"
    by (simp add: checkPermission_granted getRolePermissions_homeroom homeroom_rule
        and_then_def getProp_def allow_def)
  have export: "RBACService_checkPermission new_RBACService (teacher2 0) EXPORT_GRADES None
      = \<lparr>allowed = False, reason = Some NoRolePermission\<rparr>"
    by (simp add: RBACService_checkPermission_def getRolePermissions_general deny_def)
  from C8_pure_and_repeatable [of MANAGE_CLASS "Some [''classId'' \<mapsto> ''class-3-1'']"
      "(new_RoleBasedAccessControl, teacher1 0)"] own
  have first: "run_state (RoleBasedAccessControl_checkPermission_program MANAGE_CLASS
       (Some [''classId'' \<mapsto> ''class-3-1''])) (new_RoleBasedAccessControl, teacher1 0)
     = (\<lparr>allowed = True, reason = None\<rparr>, (new_RoleBasedAccessControl, teacher1 0))"
    by simp
  from C8_pure_and_repeatable [of EXPORT_GRADES None "(new_RBACService, teacher2 0)"] export
  have second: "run_state
       (do { first \<leftarrow> RBACService_checkPermission_program EXPORT_GRADES None;
             second \<leftarrow> RBACService_checkPermission_program EXPORT_GRADES None;
             State_Monad.return (first, second) }) (new_RBACService, teacher2 0)
     = ((\<lparr>allowed = False, reason = Some NoRolePermission\<rparr>,
         \<lparr>allowed = False, reason = Some NoRolePermission\<rparr>), (new_RBACService, teacher2 0))"
    by simp
  from first second show ?thesis
    by blast
qed

section \<open>Malformed input\<close>

lemma decodeRole_iff: "decodeRole v = Some r \<longleftrightarrow> v = roleValue r"
  by (cases r) (auto simp: decodeRole_def split: if_splits)






lemma asUser_fields [simp]:
  "isActive (asUser r u) = isActive u" "role (asUser r u) = r"
  "classId (asUser r u) = classId u" "subjectIds (asUser r u) = subjectIds u"
  by (simp_all add: asUser_def)

lemma asRuntime_fields [simp]:
  "isActive (asRuntime u) = isActive u" "role (asRuntime u) = roleValue (role u)"
  by (simp_all add: asRuntime_def)













section \<open>Screens\<close>

lemma screenPermissions_keys:
  "map fst screenPermissions =
     [''Students'', ''StudentDetail'', ''AddStudent'', ''EditStudent'', ''Grades'',
      ''AddGrade'', ''EditGrade'', ''Attendance'', ''TakeAttendance'']"
  by (simp add: screenPermissions_def)

text \<open>
  Claim C10 at the screen name \<^verbatim>\<open>constructor\<close>, which is none of the nine mapped
  screens: the lookup finds the inherited \<^verbatim>\<open>Object.prototype.constructor\<close>, and the
  call throws a TypeError instead of returning true.
\<close>

theorem C10_inherited_name_throws:
  "''constructor'' \<notin> set (map fst screenPermissions)
   \<and> canAccessScreen new_RBACService (teacher1 0) ''constructor'' = Inl TypeError"
  by (simp add: canAccessScreen_def screenPermissions_def Object_prototype_def)

text \<open>
  For every other unmapped screen name the claim holds: \<^verbatim>\<open>canAccessScreen\<close> returns
  true without a permission check, for every user (inactive users included) and every
  table.
\<close>

theorem canAccessScreen_unmapped:
  assumes "screenName \<notin> set (map fst screenPermissions)"
    and "screenName \<notin> set Object_prototype"
  shows "canAccessScreen this user screenName = Inr True"
proof -
  from assms(1) have "map_of screenPermissions screenName = None"
    by (simp add: map_of_eq_None_iff)
  with assms(2) show ?thesis
    by (simp add: canAccessScreen_def)
qed

theorem canAccessScreen_unmapped_witness:
  "''Dashboard'' \<notin> set (map fst screenPermissions)
   \<and> ''Dashboard'' \<notin> set Object_prototype
   \<and> canAccessScreen (new_RBACService\<lparr>rolePermissions := Map.empty\<rparr>)
       ((teacher2 0)\<lparr>isActive := False\<rparr>) ''Dashboard'' = Inr True"
proof -
  have unmapped: "''Dashboard'' \<notin> set (map fst screenPermissions)"
    by (simp add: screenPermissions_keys)
  have own: "''Dashboard'' \<notin> set Object_prototype"
    by (simp add: Object_prototype_def)
  from canAccessScreen_unmapped [OF unmapped own] unmapped own show ?thesis
    by blast
qed

end
